theory Spec2Isabelle
  imports Main "HOL-Library.AList"
begin

section \<open>Documents and Python objects\<close>

text \<open>
  The script \<^verbatim>\<open>fix_openapi.py\<close> parses two YAML files, rewrites the parsed
  document with \<^verbatim>\<open>fix_examples\<close> and dumps it back.  A parsed document is a
  tree of mappings, sequences and scalars (strings, numbers, booleans, null).
\<close>

datatype scalar = SNull | SBool bool | SInt int | SFloat int int | SStr string

datatype tree = Scalar scalar | Seq "tree list" | Map "(scalar \<times> tree) list"

text \<open>
  \<^verbatim>\<open>fix_examples\<close> mutates dictionaries in place and stores one detached object
  under several dictionaries, so the objects live in a store.  A value is an
  immutable scalar or a reference to a container; the store is the list of
  all containers, a reference being an index into it.  A dictionary keeps its
  entries in insertion order, as Python's \<^verbatim>\<open>dict\<close> does.
\<close>

type_synonym ref = nat

datatype val = Scal scalar | Ref ref

datatype obj = OList "val list" | ODict "(scalar \<times> val) list"

type_synonym heap = "obj list"

text \<open>
  The exceptions the function can raise.  \<open>DanglingRef\<close> is not a Python
  exception: it marks a reference to no object, which no Python state holds.
\<close>

datatype error = TypeError | AttributeError | KeyError | RuntimeError | RecursionError
  | DanglingRef

definition get :: "heap \<Rightarrow> ref \<Rightarrow> obj option" where
  "get h r = (if r < length h then Some (h ! r) else None)"

definition put :: "heap \<Rightarrow> ref \<Rightarrow> obj \<Rightarrow> heap" where
  "put h r ob = h[r := ob]"

definition has_key :: "string \<Rightarrow> (scalar \<times> val) list \<Rightarrow> bool" where
  "has_key k d = (SStr k \<in> fst ` set d)"

text \<open>\<^verbatim>\<open>p in s\<close> on two strings: \<open>p\<close> occurs in \<open>s\<close> as a contiguous run.\<close>

primrec substr :: "string \<Rightarrow> string \<Rightarrow> bool" where
  "substr p [] = (p = [])"
| "substr p (c # cs) = (take (length p) (c # cs) = p \<or> substr p cs)"

text \<open>
  \<^verbatim>\<open>k in x\<close> for a string \<open>k\<close>: a key test on a dictionary, an element test on
  a list, a substring test on a string, and \<^verbatim>\<open>TypeError\<close> (argument is not
  iterable) on a number, a boolean or null.
\<close>

definition py_in :: "string \<Rightarrow> val \<Rightarrow> heap \<Rightarrow> error + bool" where
  "py_in k x h =
     (case x of
        Scal (SStr s) \<Rightarrow> Inr (substr k s)
      | Scal _ \<Rightarrow> Inl TypeError
      | Ref r \<Rightarrow>
          (case get h r of
             None \<Rightarrow> Inl DanglingRef
           | Some (ODict d) \<Rightarrow> Inr (has_key k d)
           | Some (OList xs) \<Rightarrow> Inr (Scal (SStr k) \<in> set xs)))"

text \<open>
  \<^verbatim>\<open>x.pop(k)\<close>: removes the entry of a dictionary and returns its value; a
  string has no \<^verbatim>\<open>pop\<close> (\<^verbatim>\<open>AttributeError\<close>) and \<^verbatim>\<open>list.pop\<close> rejects a string
  index (\<^verbatim>\<open>TypeError\<close>).
\<close>

definition py_pop :: "val \<Rightarrow> string \<Rightarrow> heap \<Rightarrow> error + val \<times> heap" where
  "py_pop x k h =
     (case x of
        Scal _ \<Rightarrow> Inl AttributeError
      | Ref r \<Rightarrow>
          (case get h r of
             None \<Rightarrow> Inl DanglingRef
           | Some (OList xs) \<Rightarrow> Inl TypeError
           | Some (ODict d) \<Rightarrow>
               (case map_of d (SStr k) of
                  None \<Rightarrow> Inl KeyError
                | Some v \<Rightarrow> Inr (v, put h r (ODict (AList.delete (SStr k) d))))))"

text \<open>
  \<^verbatim>\<open>x[k] = v\<close>: on a dictionary an existing key keeps its position and a new
  key goes last; a string or a list raises \<^verbatim>\<open>TypeError\<close>.
\<close>

definition py_setitem :: "val \<Rightarrow> scalar \<Rightarrow> val \<Rightarrow> heap \<Rightarrow> error + heap" where
  "py_setitem x k v h =
     (case x of
        Scal _ \<Rightarrow> Inl TypeError
      | Ref r \<Rightarrow>
          (case get h r of
             None \<Rightarrow> Inl DanglingRef
           | Some (OList xs) \<Rightarrow> Inl TypeError
           | Some (ODict d) \<Rightarrow> Inr (put h r (ODict (AList.update k v d)))))"

section \<open>The rewrite\<close>

text \<open>
  Lines 14 to 16: \<^verbatim>\<open>for content_type in data['content'].values()\<close>.  The
  iterator reads the dictionary \<open>rc\<close> as it is at each step, by position, and
  raises \<^verbatim>\<open>RuntimeError\<close> when its size is no longer the size \<open>n0\<close> it had when
  the loop began (also at the step that finds the iterator exhausted).
\<close>

fun for_values :: "ref \<Rightarrow> nat \<Rightarrow> val \<Rightarrow> nat list \<Rightarrow> heap \<Rightarrow> error + heap" where
  "for_values rc n0 ev [] h =
     (case get h rc of
        Some (ODict d) \<Rightarrow> if length d \<noteq> n0 then Inl RuntimeError else Inr h
      | _ \<Rightarrow> Inl DanglingRef)"
| "for_values rc n0 ev (i # js) h =
     (case get h rc of
        Some (ODict d) \<Rightarrow>
          if length d \<noteq> n0 then Inl RuntimeError
          else
            (let content_type = snd (d ! i) in
             case py_in ''schema'' content_type h of
               Inl e \<Rightarrow> Inl e
             | Inr False \<Rightarrow> for_values rc n0 ev js h
             | Inr True \<Rightarrow>
                 (case py_setitem content_type (SStr ''examples'') ev h of
                    Inl e \<Rightarrow> Inl e
                  | Inr h' \<Rightarrow> for_values rc n0 ev js h'))
      | _ \<Rightarrow> Inl DanglingRef)"

text \<open>
  Lines 10 to 16, the relocation at the dictionary \<open>r\<close> (\<^verbatim>\<open>data\<close>).  Every
  use of \<^verbatim>\<open>data\<close> reads the store again, as the source does.
\<close>

definition move_examples :: "ref \<Rightarrow> heap \<Rightarrow> error + heap" where
  "move_examples r h =
     (case get h r of
        Some (ODict d) \<Rightarrow>
          (case map_of d (SStr ''schema'') of
             None \<Rightarrow> Inr h
           | Some sv \<Rightarrow>
               (case py_in ''examples'' sv h of
                  Inl e \<Rightarrow> Inl e
                | Inr False \<Rightarrow> Inr h
                | Inr True \<Rightarrow>
                    (case py_pop sv ''examples'' h of
                       Inl e \<Rightarrow> Inl e
                     | Inr (examples_value, h1) \<Rightarrow>
                         (case get h1 r of
                            Some (ODict d1) \<Rightarrow>
                              (case map_of d1 (SStr ''content'') of
                                 None \<Rightarrow> Inr h1
                               | Some (Scal _) \<Rightarrow> Inl AttributeError
                               | Some (Ref rc) \<Rightarrow>
                                   (case get h1 rc of
                                      None \<Rightarrow> Inl DanglingRef
                                    | Some (OList _) \<Rightarrow> Inl AttributeError
                                    | Some (ODict cd) \<Rightarrow>
                                        for_values rc (length cd) examples_value
                                          [0..<length cd] h1))
                          | _ \<Rightarrow> Inl DanglingRef))))
      | _ \<Rightarrow> Inl DanglingRef)"

text \<open>
  Lines 19 and 20: \<^verbatim>\<open>for key, value in data.items(): data[key] = f(value)\<close>,
  with the same iterator discipline; \<open>f\<close> is the recursive call.
\<close>

fun for_items ::
  "(val \<Rightarrow> heap \<Rightarrow> error + val \<times> heap) \<Rightarrow> ref \<Rightarrow> nat \<Rightarrow> nat list \<Rightarrow> heap \<Rightarrow> error + heap"
where
  "for_items f r n0 [] h =
     (case get h r of
        Some (ODict d) \<Rightarrow> if length d \<noteq> n0 then Inl RuntimeError else Inr h
      | _ \<Rightarrow> Inl DanglingRef)"
| "for_items f r n0 (i # js) h =
     (case get h r of
        Some (ODict d) \<Rightarrow>
          if length d \<noteq> n0 then Inl RuntimeError
          else
            (case f (snd (d ! i)) h of
               Inl e \<Rightarrow> Inl e
             | Inr (v', h') \<Rightarrow>
                 (case py_setitem (Ref r) (fst (d ! i)) v' h' of
                    Inl e \<Rightarrow> Inl e
                  | Inr h'' \<Rightarrow> for_items f r n0 js h''))
      | _ \<Rightarrow> Inl DanglingRef)"

text \<open>
  Line 23: \<^verbatim>\<open>[fix_examples(item) for item in data]\<close>.  Nothing in the script
  mutates a list, so the items are those the list had when the loop began.
\<close>

fun comp_list ::
  "(val \<Rightarrow> heap \<Rightarrow> error + val \<times> heap) \<Rightarrow> val list \<Rightarrow> heap \<Rightarrow> error + val list \<times> heap"
where
  "comp_list f [] h = Inr ([], h)"
| "comp_list f (x # xs) h =
     (case f x h of
        Inl e \<Rightarrow> Inl e
      | Inr (y, h') \<Rightarrow>
          (case comp_list f xs h' of
             Inl e \<Rightarrow> Inl e
           | Inr (ys, h'') \<Rightarrow> Inr (y # ys, h'')))"

text \<open>
  \<^verbatim>\<open>fix_examples\<close>.  The first argument is the number of nested calls the
  interpreter still allows: Python raises \<^verbatim>\<open>RecursionError\<close> when the call
  stack exceeds its recursion limit.  A dictionary is rewritten in place and
  returned; a list is left alone and a new list is returned; anything else is
  returned as it is.
\<close>

primrec fix_examples :: "nat \<Rightarrow> val \<Rightarrow> heap \<Rightarrow> error + val \<times> heap" where
  "fix_examples 0 data h = Inl RecursionError"
| "fix_examples (Suc n) data h =
     (case data of
        Scal s \<Rightarrow> Inr (data, h)
      | Ref r \<Rightarrow>
          (case get h r of
             None \<Rightarrow> Inl DanglingRef
           | Some (ODict d) \<Rightarrow>
               (case move_examples r h of
                  Inl e \<Rightarrow> Inl e
                | Inr h1 \<Rightarrow>
                    (case get h1 r of
                       Some (ODict d1) \<Rightarrow>
                         (case for_items (fix_examples n) r (length d1) [0..<length d1] h1 of
                            Inl e \<Rightarrow> Inl e
                          | Inr h2 \<Rightarrow> Inr (Ref r, h2))
                     | _ \<Rightarrow> Inl DanglingRef))
           | Some (OList xs) \<Rightarrow>
               (case comp_list (fix_examples n) xs h of
                  Inl e \<Rightarrow> Inl e
                | Inr (ys, h1) \<Rightarrow> Inr (Ref (length h1), h1 @ [OList ys]))))"

section \<open>Loading and dumping a document\<close>

text \<open>
  \<^verbatim>\<open>yaml.safe_load\<close> on a document without anchors builds one fresh object
  for each mapping and sequence, children first.
\<close>

fun alloc :: "tree \<Rightarrow> heap \<Rightarrow> val \<times> heap"
  and alloc_list :: "tree list \<Rightarrow> heap \<Rightarrow> val list \<times> heap"
  and alloc_items :: "(scalar \<times> tree) list \<Rightarrow> heap \<Rightarrow> (scalar \<times> val) list \<times> heap"
where
  "alloc (Scalar s) h = (Scal s, h)"
| "alloc (Seq ts) h =
     (case alloc_list ts h of (vs, h') \<Rightarrow> (Ref (length h'), h' @ [OList vs]))"
| "alloc (Map kts) h =
     (case alloc_items kts h of (kvs, h') \<Rightarrow> (Ref (length h'), h' @ [ODict kvs]))"
| "alloc_list [] h = ([], h)"
| "alloc_list (t # ts) h =
     (case alloc t h of (v, h1) \<Rightarrow> (case alloc_list ts h1 of (vs, h2) \<Rightarrow> (v # vs, h2)))"
| "alloc_items [] h = ([], h)"
| "alloc_items ((k, t) # kts) h =
     (case alloc t h of
        (v, h1) \<Rightarrow> (case alloc_items kts h1 of (kvs, h2) \<Rightarrow> ((k, v) # kvs, h2)))"


text \<open>
  \<^verbatim>\<open>yaml.dump\<close> walks the objects recursively, so it has the interpreter's
  recursion limit too; \<open>None\<close> is its \<^verbatim>\<open>RecursionError\<close>.
\<close>

fun dump_list :: "(val \<Rightarrow> tree option) \<Rightarrow> val list \<Rightarrow> tree list option" where
  "dump_list f [] = Some []"
| "dump_list f (v # vs) =
     (case f v of
        None \<Rightarrow> None
      | Some t \<Rightarrow> (case dump_list f vs of None \<Rightarrow> None | Some ts \<Rightarrow> Some (t # ts)))"

fun dump_items :: "(val \<Rightarrow> tree option) \<Rightarrow> (scalar \<times> val) list \<Rightarrow> (scalar \<times> tree) list option" where
  "dump_items f [] = Some []"
| "dump_items f (kv # kvs) =
     (case f (snd kv) of
        None \<Rightarrow> None
      | Some t \<Rightarrow> (case dump_items f kvs of None \<Rightarrow> None | Some kts \<Rightarrow> Some ((fst kv, t) # kts)))"

primrec dump :: "nat \<Rightarrow> heap \<Rightarrow> val \<Rightarrow> tree option" where
  "dump 0 h v = None"
| "dump (Suc n) h v =
     (case v of
        Scal s \<Rightarrow> Some (Scalar s)
      | Ref r \<Rightarrow>
          (case get h r of
             None \<Rightarrow> None
           | Some (OList vs) \<Rightarrow> map_option Seq (dump_list (dump n h) vs)
           | Some (ODict d) \<Rightarrow> map_option Map (dump_items (dump n h) d)))"

text \<open>
  Lines 28 to 35, for one file: load, rewrite, dump.  \<open>n\<close> is the recursion
  limit left to \<^verbatim>\<open>fix_examples\<close> and to the dumper.
\<close>

definition fix_document :: "nat \<Rightarrow> tree \<Rightarrow> error + tree" where
  "fix_document n t =
     (case alloc t [] of
        (v, h) \<Rightarrow>
          (case fix_examples n v h of
             Inl e \<Rightarrow> Inl e
           | Inr (v', h') \<Rightarrow>
               (case dump n h' v' of None \<Rightarrow> Inl RecursionError | Some t' \<Rightarrow> Inr t')))"

section \<open>Notions used in the statements\<close>

text \<open>
  \<open>lacks k h v\<close>: the test \<^verbatim>\<open>k in v\<close> is defined and false, that is, \<open>v\<close> is a
  dictionary without the key \<open>k\<close>, a list without the element \<open>k\<close>, or a
  string in which \<open>k\<close> does not occur.
\<close>

definition lacks :: "string \<Rightarrow> heap \<Rightarrow> val \<Rightarrow> bool" where
  "lacks k h v =
     (case v of
        Scal (SStr s) \<Rightarrow> \<not> substr k s
      | Scal _ \<Rightarrow> False
      | Ref r \<Rightarrow>
          (case get h r of
             Some (ODict d) \<Rightarrow> \<not> has_key k d
           | Some (OList xs) \<Rightarrow> Scal (SStr k) \<notin> set xs
           | None \<Rightarrow> False))"

definition is_dict :: "heap \<Rightarrow> val \<Rightarrow> bool" where
  "is_dict h v = (case v of Ref r \<Rightarrow> (case get h r of Some (ODict d) \<Rightarrow> True | _ \<Rightarrow> False) | _ \<Rightarrow> False)"

text \<open>
  The values of the \<^verbatim>\<open>content\<close> dictionary \<open>cd\<close> that receive the detached
  value: the dictionaries with a key \<^verbatim>\<open>schema\<close>; and what they become.
\<close>

definition receivers :: "heap \<Rightarrow> (scalar \<times> val) list \<Rightarrow> ref set" where
  "receivers h cd = {ct. Ref ct \<in> snd ` set cd \<and> (\<exists>d. get h ct = Some (ODict d) \<and> has_key ''schema'' d)}"

definition attach :: "val \<Rightarrow> obj \<Rightarrow> obj" where
  "attach ev ob =
     (case ob of
        ODict d \<Rightarrow> if has_key ''schema'' d then ODict (AList.update (SStr ''examples'') ev d) else ob
      | OList xs \<Rightarrow> ob)"







text \<open>
  The entries of a mapping other than \<^verbatim>\<open>examples\<close>; a document with every
  \<^verbatim>\<open>examples\<close> entry erased; and the key lists, without \<^verbatim>\<open>examples\<close>, of all the
  mappings of a document.
\<close>

definition nonex :: "(scalar \<times> 'a) list \<Rightarrow> (scalar \<times> 'a) list" where
  "nonex d = filter (\<lambda>kv. fst kv \<noteq> SStr ''examples'') d"









fun srepr :: "heap \<Rightarrow> val \<Rightarrow> tree \<Rightarrow> bool" where
  "srepr h v (Scalar s) = (v = Scal s)"
| "srepr h v (Seq ts) =
     (case v of
        Ref r \<Rightarrow>
          (case get h r of
             Some (OList vs) \<Rightarrow> list_all2 (\<lambda>v t. srepr h v t) vs ts
           | _ \<Rightarrow> False)
      | _ \<Rightarrow> False)"
| "srepr h v (Map kts) =
     (case v of
        Ref r \<Rightarrow>
          (case get h r of
             Some (ODict d) \<Rightarrow>
               list_all2 (\<lambda>kv kt. fst kv = fst kt \<and> srepr h (snd kv) (snd kt)) (nonex d) kts
           | _ \<Rightarrow> False)
      | _ \<Rightarrow> False)"


section \<open>Documents and stores used as concrete inputs\<close>

text \<open>
  A finite, alias-free document on which the rewrite stores the detached
  value under itself:
  \<^verbatim>\<open>
  schema:
    examples: {schema: {}}
  content:
    schema: {schema: {}}
    content:
      schema: {schema: {}}
  \<close>
\<close>

definition self_reference_doc :: tree where
  "self_reference_doc =
     Map [(SStr ''schema'', Map [(SStr ''examples'', Map [(SStr ''schema'', Map [])])]),
          (SStr ''content'',
             Map [(SStr ''schema'', Map [(SStr ''schema'', Map [])]),
                  (SStr ''content'', Map [(SStr ''schema'', Map [(SStr ''schema'', Map [])])])])]"





section \<open>The store\<close>


lemma length_put [simp]: "length (put h r ob) = length h"
  by (simp add: put_def)




lemma has_key_update [simp]:
  "has_key k (AList.update (SStr k') v d) = (k = k' \<or> has_key k d)"
  by (auto simp: has_key_def dom_update)

lemma has_key_delete [simp]:
  "has_key k (AList.delete (SStr k') d) = (k \<noteq> k' \<and> has_key k d)"
  by (auto simp: has_key_def AList.delete_eq)



lemma lacks_py_in: "lacks k h v \<Longrightarrow> py_in k v h = Inr False"
  by (auto simp: lacks_def py_in_def split: val.splits scalar.splits option.splits obj.splits)


lemma attach_attach [simp]: "attach ev (attach ev ob) = attach ev ob"
  by (auto simp: attach_def split: obj.splits)

lemmas eval_defs = get_def put_def lacks_def is_dict_def receivers_def attach_def has_key_def

section \<open>The relocation at one dictionary\<close>

subsection \<open>The loop over the content values\<close>





subsection \<open>A relocation that returns met only values it can handle\<close>








subsection \<open>The claims about the relocation\<close>

text \<open>
  The statements of this section are about lines 10 to 16 at one dictionary
  \<open>r\<close> of the store, before the recursive calls of lines 19 and 20 rewrite
  its values.  The dictionary, its \<^verbatim>\<open>schema\<close> and its \<^verbatim>\<open>content\<close> are distinct
  objects, and neither \<^verbatim>\<open>schema\<close> nor \<^verbatim>\<open>content\<close> is a value of \<^verbatim>\<open>content\<close>, as
  in every document loaded without anchors.
\<close>




text \<open>
  C2, as stated, fails: a \<^verbatim>\<open>schema\<close> that is a number is not a mapping, and the
  test \<^verbatim>\<open>'examples' in data['schema']\<close> raises \<^verbatim>\<open>TypeError\<close> on it.
\<close>

theorem schema_number_raises:
  "fix_document 10 (Map [(SStr ''schema'', Scalar (SInt 5))]) = Inl TypeError"
  by code_simp

text \<open>
  C2, amended.  For every dictionary whose \<^verbatim>\<open>schema\<close> value lacks \<^verbatim>\<open>examples\<close>
  (a string in which \<^verbatim>\<open>examples\<close> does not occur, a list without the element
  \<^verbatim>\<open>examples\<close>, or a dictionary without that key), the relocation is skipped:
  it returns the store unchanged, whatever the \<^verbatim>\<open>content\<close> value is.
\<close>

theorem move_examples_skips:
  assumes "get h r = Some (ODict d)" and "map_of d (SStr ''schema'') = Some sv"
    and "lacks ''examples'' h sv"
  shows "move_examples r h = Inr h"
  using assms by (simp add: move_examples_def lacks_py_in)

theorem move_examples_skips_witness:
  "move_examples 1
     [OList [Scal (SStr ''example''), Scal (SInt 3)],
      ODict [(SStr ''schema'', Ref 0), (SStr ''content'', Scal (SInt 5))]]
   = Inr [OList [Scal (SStr ''example''), Scal (SInt 3)],
          ODict [(SStr ''schema'', Ref 0), (SStr ''content'', Scal (SInt 5))]]
   \<and> move_examples 0
     [ODict [(SStr ''schema'', Scal (SStr ''see the example'')), (SStr ''content'', Scal SNull)]]
   = Inr [ODict [(SStr ''schema'', Scal (SStr ''see the example'')), (SStr ''content'', Scal SNull)]]"
proof
  show "move_examples 1
     [OList [Scal (SStr ''example''), Scal (SInt 3)],
      ODict [(SStr ''schema'', Ref 0), (SStr ''content'', Scal (SInt 5))]]
   = Inr [OList [Scal (SStr ''example''), Scal (SInt 3)],
          ODict [(SStr ''schema'', Ref 0), (SStr ''content'', Scal (SInt 5))]]"
    by (rule move_examples_skips[where sv = "Ref 0"
          and d = "[(SStr ''schema'', Ref 0), (SStr ''content'', Scal (SInt 5))]"])
       (simp_all add: eval_defs)
  show "move_examples 0
     [ODict [(SStr ''schema'', Scal (SStr ''see the example'')), (SStr ''content'', Scal SNull)]]
   = Inr [ODict [(SStr ''schema'', Scal (SStr ''see the example'')), (SStr ''content'', Scal SNull)]]"
    by (rule move_examples_skips[where sv = "Scal (SStr ''see the example'')"
          and d = "[(SStr ''schema'', Scal (SStr ''see the example'')), (SStr ''content'', Scal SNull)]"])
       (simp_all add: eval_defs)
qed









section \<open>Documents in which nothing is to be moved\<close>






































section \<open>Keys and order\<close>












lemma nonex_update_examples [simp]: "nonex (AList.update (SStr ''examples'') v d) = nonex d"
  by (induction d) (auto simp: nonex_def)

lemma nonex_delete_examples [simp]: "nonex (AList.delete (SStr ''examples'') d) = nonex d"
  by (induction d) (auto simp: nonex_def)

















lemma srepr_Scal [simp]: "srepr h (Scal s) t = (t = Scalar s)"
  by (cases t) auto























section \<open>Termination\<close>

text \<open>
  C10.  On \<open>self_reference_doc\<close> the call at the root stores the detached
  dictionary \<open>E\<close> under \<^verbatim>\<open>content.schema\<close> and \<^verbatim>\<open>content.content\<close>; the call at
  \<^verbatim>\<open>content\<close> detaches \<open>E\<close> again from \<^verbatim>\<open>content.schema\<close> and stores it under every
  value of \<^verbatim>\<open>content.content\<close> that has a key \<^verbatim>\<open>schema\<close>, and \<open>E\<close> is one of
  them: \<^verbatim>\<open>E['examples'] = E\<close>.  The recursion then descends into \<open>E\<close> for
  ever; with a recursion limit of 100 on a document of depth 4 the result is
  \<^verbatim>\<open>RecursionError\<close>.
\<close>

theorem fix_examples_self_reference:
  "fix_document 100 self_reference_doc = Inl RecursionError"
  by code_simp

end
